theory Spec2Isabelle
  imports Main "HOL-Library.Sublist"
begin

section \<open>The environment of the client: Web Storage, window, errors\<close>

text \<open>
  The Token Store is the browser's \<^verbatim>\<open>localStorage\<close>: a table from keys to string values.
  \<^verbatim>\<open>getItem\<close> answers \<^verbatim>\<open>null\<close> (here \<open>None\<close>) for a missing key; \<^verbatim>\<open>removeItem\<close> deletes
  the key and is silent when the key is missing.
\<close>

type_synonym storage = "string \<rightharpoonup> string"

definition getItem :: "storage \<Rightarrow> string \<Rightarrow> string option" where
  "getItem store key = store key"

definition removeItem :: "storage \<Rightarrow> string \<Rightarrow> storage" where
  "removeItem store key = store(key := None)"

text \<open>
  \<^verbatim>\<open>window.location\<close>: the interceptor only ever assigns its \<^verbatim>\<open>href\<close>.
\<close>

record location =
  href :: string

text \<open>
  The globals the interceptors of \<^verbatim>\<open>src/lib/config.ts\<close> touch.
  \<^item> \<open>localStorage\<close> is \<open>None\<close> where the global identifier is not defined (reading it
    then throws a \<^verbatim>\<open>ReferenceError\<close>), and \<open>Some store\<close> otherwise.
  \<^item> \<open>window\<close> is \<open>None\<close> where \<^verbatim>\<open>typeof window === 'undefined'\<close>.
  \<^item> \<open>navigations\<close> is a log, oldest first, of the navigations started so far: assigning
    \<^verbatim>\<open>window.location.href\<close> starts one. The code never reads it; it is there so that
    "how many navigations were fired" can be stated.
\<close>

record env =
  localStorage :: "storage option"
  window :: "location option"
  navigations :: "string list"

text \<open>The response object of the HTTP library; \<open>data\<close> is the body, which nothing here reads.\<close>

record axios_response =
  status :: int
  data :: string

text \<open>
  A thrown or rejected JavaScript error object. An error of the HTTP library carries the
  response it was built from in \<open>response\<close>, when there was one; a transport failure
  (network error, timeout) and every other kind of error has none, so that
  \<^verbatim>\<open>error.response?.status\<close> is \<^verbatim>\<open>undefined\<close> there.
\<close>

record js_error =
  name :: string
  message :: string
  response :: "axios_response option"

definition ReferenceError :: "string \<Rightarrow> js_error" where
  "ReferenceError ident =
     \<lparr>name = ''ReferenceError'', message = ident @ '' is not defined'', response = None\<rparr>"

text \<open>
  The request configuration an outbound call carries through the request interceptor;
  \<open>http_method\<close> is its \<^verbatim>\<open>method\<close> field.
\<close>

record request_config =
  url :: string
  http_method :: string
  headers :: "string \<rightharpoonup> string"

text \<open>
  JavaScript truthiness of a string: every string but the empty one. (\<^verbatim>\<open>null\<close> and
  \<^verbatim>\<open>undefined\<close>, both \<open>None\<close> here, are falsy too; the functions below take that case
  apart themselves.)
\<close>

definition truthy :: "string \<Rightarrow> bool" where
  "truthy s = (s \<noteq> [])"

section \<open>The Authenticated HTTP Client: \<^verbatim>\<open>api.interceptors\<close>\<close>

subsection \<open>Request interceptor\<close>

text \<open>
  \<^verbatim>\<open>
  (config) => {
    const token = localStorage.getItem('token');
    if (token) {
      config.headers.Authorization = `Bearer ${token}`;
    }
    return config;
  }
  \<close>
  The result is \<open>Inr\<close> of the configuration that goes on to be dispatched, or \<open>Inl\<close> of the
  error thrown (the request is then never sent).
\<close>

definition request_onFulfilled :: "env \<Rightarrow> request_config \<Rightarrow> js_error + request_config" where
  "request_onFulfilled e config =
     (case localStorage e of
        None \<Rightarrow> Inl (ReferenceError ''localStorage'')
      | Some store \<Rightarrow>
          (case getItem store ''token'' of
             None \<Rightarrow> Inr config
           | Some token \<Rightarrow>
               if truthy token
               then Inr (config\<lparr>headers := (headers config)(''Authorization'' \<mapsto> ''Bearer '' @ token)\<rparr>)
               else Inr config))"

text \<open>\<^verbatim>\<open>(error) => { return Promise.reject(error); }\<close>\<close>

definition request_onRejected :: "js_error \<Rightarrow> js_error + request_config" where
  "request_onRejected error = Inl error"

subsection \<open>Response interceptor\<close>

text \<open>\<^verbatim>\<open>(response) => { return response; }\<close>\<close>

definition response_onFulfilled :: "env \<Rightarrow> axios_response \<Rightarrow> env \<times> (js_error + axios_response)" where
  "response_onFulfilled e r = (e, Inr r)"

text \<open>\<^verbatim>\<open>window.location.href = target\<close>, where a window exists.\<close>

definition assign_href :: "env \<Rightarrow> location \<Rightarrow> string \<Rightarrow> env" where
  "assign_href e loc target =
     e\<lparr>window := Some (loc\<lparr>href := target\<rparr>), navigations := navigations e @ [target]\<rparr>"

text \<open>\<^verbatim>\<open>error.response?.status\<close>\<close>

definition response_status :: "js_error \<Rightarrow> int option" where
  "response_status error = map_option status (response error)"

text \<open>
  \<^verbatim>\<open>
  (error) => {
    if (error.response?.status === 401) {
      localStorage.removeItem('token');
      if (typeof window !== 'undefined') {
        window.location.href = '/sign_in';
      }
    }
    return Promise.reject(error);
  }
  \<close>
  The function returns the environment it leaves behind and what the caller's promise
  settles with: \<open>Inl\<close> is a rejection. Where \<^verbatim>\<open>localStorage\<close> is not defined the handler
  throws before it reaches its last line, and the promise rejects with that error.
\<close>

definition response_onRejected :: "env \<Rightarrow> js_error \<Rightarrow> env \<times> (js_error + axios_response)" where
  "response_onRejected e error =
     (if response_status error = Some 401 then
        (case localStorage e of
           None \<Rightarrow> (e, Inl (ReferenceError ''localStorage''))
         | Some store \<Rightarrow>
             (let e1 = e\<lparr>localStorage := Some (removeItem store ''token'')\<rparr>;
                  e2 = (case window e1 of
                          None \<Rightarrow> e1
                        | Some loc \<Rightarrow> assign_href e1 loc ''/sign_in'')
              in (e2, Inl error)))
      else (e, Inl error))"

text \<open>
  What the HTTP library hands to the pair registered with
  \<^verbatim>\<open>api.interceptors.response.use(onFulfilled, onRejected)\<close>: a response it accepted, or an
  error. The instance is created with \<^verbatim>\<open>baseURL\<close> and \<^verbatim>\<open>timeout\<close> only, so the library
  accepts the statuses 200 to 299 and turns a response with any other status, 401 among
  them, into an error whose \<open>response\<close> is that response.
\<close>

datatype outcome = Fulfilled axios_response | Rejected js_error

definition response_interceptor :: "env \<Rightarrow> outcome \<Rightarrow> env \<times> (js_error + axios_response)" where
  "response_interceptor e out =
     (case out of
        Fulfilled r \<Rightarrow> response_onFulfilled e r
      | Rejected error \<Rightarrow> response_onRejected e error)"

section \<open>The Route Guard: \<^verbatim>\<open>middleware\<close>\<close>

text \<open>
  A parsed URL. \<^verbatim>\<open>request.url\<close> and \<^verbatim>\<open>request.nextUrl\<close> are the same URL (no base path
  and no locale are configured), so the request has one field for both.
\<close>

record URL =
  origin :: string
  pathname :: string
  search :: string

record next_request =
  nextUrl :: URL
  cookies :: "string \<rightharpoonup> string"

datatype next_response = Redirect URL | Next

text \<open>
  \<^verbatim>\<open>new URL(path, base)\<close> for a \<open>path\<close> that is an absolute path without a query, as
  \<^verbatim>\<open>'/sign_in'\<close> is: the origin of the base, the given path, no query.
\<close>

definition new_URL :: "string \<Rightarrow> URL \<Rightarrow> URL" where
  "new_URL path base = \<lparr>origin = origin base, pathname = path, search = []\<rparr>"

text \<open>\<^verbatim>\<open>s.startsWith(p)\<close>\<close>

definition startsWith :: "string \<Rightarrow> string \<Rightarrow> bool" where
  "startsWith s p = prefix p s"

text \<open>
  \<^verbatim>\<open>
  export function middleware(request: NextRequest) {
    const token = request.cookies.get('token')?.value;
    if (request.nextUrl.pathname.startsWith('/dashboard')) {
      if (!token) {
        return NextResponse.redirect(new URL('/sign_in', request.url));
      }
    }
    return NextResponse.next();
  }
  \<close>
  \<open>cookies request ''token''\<close> is \<open>None\<close> when the request has no cookie of that name
  (\<^verbatim>\<open>get\<close> answers \<^verbatim>\<open>undefined\<close>), and the cookie's value otherwise.
\<close>

definition middleware :: "next_request \<Rightarrow> next_response" where
  "middleware request =
     (let token = cookies request ''token'' in
      if startsWith (pathname (nextUrl request)) ''/dashboard'' then
        (if (case token of None \<Rightarrow> True | Some v \<Rightarrow> \<not> truthy v)
         then Redirect (new_URL ''/sign_in'' (nextUrl request))
         else Next)
      else Next)"

section \<open>Basic facts\<close>

lemma getItem_removeItem_same: "getItem (removeItem store key) key = None"
  by (simp add: getItem_def removeItem_def)

lemma getItem_removeItem_other: "k \<noteq> key \<Longrightarrow> getItem (removeItem store key) k = getItem store k"
  by (simp add: getItem_def removeItem_def)

lemma response_onRejected_401:
  assumes "response_status error = Some 401" and "localStorage e = Some store"
  shows "response_onRejected e error =
     ((case window e of
         None \<Rightarrow> e\<lparr>localStorage := Some (removeItem store ''token'')\<rparr>
       | Some loc \<Rightarrow> assign_href (e\<lparr>localStorage := Some (removeItem store ''token'')\<rparr>) loc ''/sign_in''),
      Inl error)"
  using assms by (simp add: response_onRejected_def Let_def)

lemma response_onRejected_other:
  "response_status error \<noteq> Some 401 \<Longrightarrow> response_onRejected e error = (e, Inl error)"
  by (simp add: response_onRejected_def)

lemma response_onRejected_no_storage:
  "response_status error = Some 401 \<Longrightarrow> localStorage e = None \<Longrightarrow>
     response_onRejected e error = (e, Inl (ReferenceError ''localStorage''))"
  by (simp add: response_onRejected_def)

section \<open>Claims about the response interceptor\<close>

text \<open>
  In what follows a "401 response" is what the source tests for: an error handed to the
  rejection handler with \<^verbatim>\<open>error.response?.status === 401\<close>. That a Token Store exists,
  \<open>localStorage e = Some store\<close>, is what the claims about it take for granted; it also
  follows from a response being handled at all, since the request that
  was answered went through \<open>request_onFulfilled\<close>, which reads the store first.
\<close>

text \<open>
  C1. After a 401 response has gone through the response interceptor the Token Store holds
  no \<^verbatim>\<open>token\<close> entry, whatever it held before.
\<close>

theorem token_store_empty_after_401:
  assumes "response_status error = Some 401" and "localStorage e = Some store"
  shows "localStorage (fst (response_interceptor e (Rejected error))) = Some (removeItem store ''token'')
       \<and> getItem (removeItem store ''token'') ''token'' = None"
  using assms
  by (simp add: response_interceptor_def response_onRejected_401 assign_href_def
        getItem_removeItem_same split: option.split)

theorem token_store_empty_after_401_witness:
  "response_status \<lparr>name = ''AxiosError'', message = ''Request failed with status code 401'',
                     response = Some \<lparr>status = 401, data = []\<rparr>\<rparr> = Some 401
   \<and> localStorage \<lparr>localStorage = Some [''token'' \<mapsto> ''abc''], window = Some \<lparr>href = ''/dashboard''\<rparr>,
                    navigations = []\<rparr> = Some [''token'' \<mapsto> ''abc'']
   \<and> localStorage (fst (response_interceptor
         \<lparr>localStorage = Some [''token'' \<mapsto> ''abc''], window = Some \<lparr>href = ''/dashboard''\<rparr>,
          navigations = []\<rparr>
         (Rejected \<lparr>name = ''AxiosError'', message = ''Request failed with status code 401'',
                    response = Some \<lparr>status = 401, data = []\<rparr>\<rparr>)))
       = Some (removeItem [''token'' \<mapsto> ''abc''] ''token'')
   \<and> getItem (removeItem [''token'' \<mapsto> ''abc''] ''token'') ''token'' = None"
  using token_store_empty_after_401
    [of "\<lparr>name = ''AxiosError'', message = ''Request failed with status code 401'',
          response = Some \<lparr>status = 401, data = []\<rparr>\<rparr>"
        "\<lparr>localStorage = Some [''token'' \<mapsto> ''abc''], window = Some \<lparr>href = ''/dashboard''\<rparr>,
          navigations = []\<rparr>"
        "[''token'' \<mapsto> ''abc'']"]
  by (simp add: response_status_def)

text \<open>
  C2. A 401 response still reaches the caller as a rejection that carries the very error
  object the interceptor was given: clearing the store and navigating do not replace it.
\<close>

theorem failure_propagated_on_401:
  assumes "response_status error = Some 401" and "localStorage e = Some store"
  shows "snd (response_interceptor e (Rejected error)) = Inl error"
  using assms
  by (simp add: response_interceptor_def response_onRejected_401)

theorem failure_propagated_on_401_witness:
  "response_status \<lparr>name = ''AxiosError'', message = ''Request failed with status code 401'',
                     response = Some \<lparr>status = 401, data = ''expired''\<rparr>\<rparr> = Some 401
   \<and> localStorage \<lparr>localStorage = Some [''token'' \<mapsto> ''abc''], window = Some \<lparr>href = ''/user/profile''\<rparr>,
                    navigations = []\<rparr> = Some [''token'' \<mapsto> ''abc'']
   \<and> snd (response_interceptor
         \<lparr>localStorage = Some [''token'' \<mapsto> ''abc''], window = Some \<lparr>href = ''/user/profile''\<rparr>,
          navigations = []\<rparr>
         (Rejected \<lparr>name = ''AxiosError'', message = ''Request failed with status code 401'',
                    response = Some \<lparr>status = 401, data = ''expired''\<rparr>\<rparr>))
       = Inl \<lparr>name = ''AxiosError'', message = ''Request failed with status code 401'',
              response = Some \<lparr>status = 401, data = ''expired''\<rparr>\<rparr>"
  using failure_propagated_on_401
    [of "\<lparr>name = ''AxiosError'', message = ''Request failed with status code 401'',
          response = Some \<lparr>status = 401, data = ''expired''\<rparr>\<rparr>"
        "\<lparr>localStorage = Some [''token'' \<mapsto> ''abc''], window = Some \<lparr>href = ''/user/profile''\<rparr>,
          navigations = []\<rparr>"
        "[''token'' \<mapsto> ''abc'']"]
  by (simp add: response_status_def)

text \<open>
  C3, as stated, fails: the assignment to \<^verbatim>\<open>window.location.href\<close> sits under
  \<^verbatim>\<open>typeof window !== 'undefined'\<close>, so where no window exists a 401 response fires no
  navigation at all.
\<close>

theorem navigation_exactly_once_counterexample:
  "response_status \<lparr>name = ''AxiosError'', message = ''Request failed with status code 401'',
                     response = Some \<lparr>status = 401, data = []\<rparr>\<rparr> = Some 401
   \<and> navigations (fst (response_interceptor
         \<lparr>localStorage = Some [''token'' \<mapsto> ''abc''], window = None, navigations = []\<rparr>
         (Rejected \<lparr>name = ''AxiosError'', message = ''Request failed with status code 401'',
                    response = Some \<lparr>status = 401, data = []\<rparr>\<rparr>))) = []"
  by (simp add: response_status_def response_interceptor_def response_onRejected_def)

text \<open>
  C3, amended. Where a window exists, a 401 response fires exactly one navigation, to
  \<^verbatim>\<open>/sign_in\<close>: the log grows by that one entry. Where no window exists it fires none.
\<close>

theorem navigation_on_401:
  assumes "response_status error = Some 401" and "localStorage e = Some store"
  shows "(window e \<noteq> None \<longrightarrow>
            navigations (fst (response_interceptor e (Rejected error))) = navigations e @ [''/sign_in''])
       \<and> (window e = None \<longrightarrow>
            navigations (fst (response_interceptor e (Rejected error))) = navigations e)"
  using assms
  by (auto simp add: response_interceptor_def response_onRejected_401 assign_href_def)

theorem navigation_on_401_witness:
  "response_status \<lparr>name = ''AxiosError'', message = ''Request failed with status code 401'',
                     response = Some \<lparr>status = 401, data = []\<rparr>\<rparr> = Some 401
   \<and> localStorage \<lparr>localStorage = Some [''token'' \<mapsto> ''abc''], window = Some \<lparr>href = ''/dashboard''\<rparr>,
                    navigations = [''/dashboard'']\<rparr> = Some [''token'' \<mapsto> ''abc'']
   \<and> window \<lparr>localStorage = Some [''token'' \<mapsto> ''abc''], window = Some \<lparr>href = ''/dashboard''\<rparr>,
              navigations = [''/dashboard'']\<rparr> \<noteq> None
   \<and> navigations (fst (response_interceptor
         \<lparr>localStorage = Some [''token'' \<mapsto> ''abc''], window = Some \<lparr>href = ''/dashboard''\<rparr>,
          navigations = [''/dashboard'']\<rparr>
         (Rejected \<lparr>name = ''AxiosError'', message = ''Request failed with status code 401'',
                    response = Some \<lparr>status = 401, data = []\<rparr>\<rparr>)))
       = [''/dashboard'', ''/sign_in'']
   \<and> localStorage \<lparr>localStorage = Some [''token'' \<mapsto> ''abc''], window = None,
                    navigations = []\<rparr> = Some [''token'' \<mapsto> ''abc'']
   \<and> window \<lparr>localStorage = Some [''token'' \<mapsto> ''abc''], window = None, navigations = []\<rparr> = None
   \<and> navigations (fst (response_interceptor
         \<lparr>localStorage = Some [''token'' \<mapsto> ''abc''], window = None, navigations = []\<rparr>
         (Rejected \<lparr>name = ''AxiosError'', message = ''Request failed with status code 401'',
                    response = Some \<lparr>status = 401, data = []\<rparr>\<rparr>)))
       = []"
  using navigation_on_401
    [of "\<lparr>name = ''AxiosError'', message = ''Request failed with status code 401'',
          response = Some \<lparr>status = 401, data = []\<rparr>\<rparr>"
        "\<lparr>localStorage = Some [''token'' \<mapsto> ''abc''], window = Some \<lparr>href = ''/dashboard''\<rparr>,
          navigations = [''/dashboard'']\<rparr>"
        "[''token'' \<mapsto> ''abc'']"]
    navigation_on_401
    [of "\<lparr>name = ''AxiosError'', message = ''Request failed with status code 401'',
          response = Some \<lparr>status = 401, data = []\<rparr>\<rparr>"
        "\<lparr>localStorage = Some [''token'' \<mapsto> ''abc''], window = None, navigations = []\<rparr>"
        "[''token'' \<mapsto> ''abc'']"]
  by (simp add: response_status_def)

text \<open>
  C6. Every outcome that is not a 401 response goes through untouched: a response the
  library accepted, an error without a response (a transport failure), and an error whose
  response has any other status. The environment afterwards is the one before, so the
  Token Store is unchanged and no navigation is fired, and the caller gets exactly what the
  library settled with.
\<close>

theorem other_outcomes_pass_through:
  "response_interceptor e (Fulfilled r) = (e, Inr r)
   \<and> (response error = None \<longrightarrow> response_interceptor e (Rejected error) = (e, Inl error))
   \<and> (response error = Some r' \<and> status r' \<noteq> 401 \<longrightarrow>
        response_interceptor e (Rejected error) = (e, Inl error))"
  by (simp add: response_interceptor_def response_onFulfilled_def response_onRejected_other
        response_status_def)

theorem other_outcomes_pass_through_witness:
  "response_interceptor
      \<lparr>localStorage = Some [''token'' \<mapsto> ''abc''], window = Some \<lparr>href = ''/posts''\<rparr>, navigations = []\<rparr>
      (Fulfilled \<lparr>status = 200, data = ''ok''\<rparr>)
     = (\<lparr>localStorage = Some [''token'' \<mapsto> ''abc''], window = Some \<lparr>href = ''/posts''\<rparr>, navigations = []\<rparr>,
        Inr \<lparr>status = 200, data = ''ok''\<rparr>)
   \<and> response \<lparr>name = ''AxiosError'', message = ''Network Error'', response = None\<rparr> = None
   \<and> response_interceptor
      \<lparr>localStorage = Some [''token'' \<mapsto> ''abc''], window = Some \<lparr>href = ''/posts''\<rparr>, navigations = []\<rparr>
      (Rejected \<lparr>name = ''AxiosError'', message = ''Network Error'', response = None\<rparr>)
     = (\<lparr>localStorage = Some [''token'' \<mapsto> ''abc''], window = Some \<lparr>href = ''/posts''\<rparr>, navigations = []\<rparr>,
        Inl \<lparr>name = ''AxiosError'', message = ''Network Error'', response = None\<rparr>)
   \<and> response \<lparr>name = ''AxiosError'', message = ''Request failed with status code 500'',
                response = Some \<lparr>status = 500, data = []\<rparr>\<rparr> = Some \<lparr>status = 500, data = []\<rparr>
   \<and> status \<lparr>status = 500, data = []\<rparr> \<noteq> 401
   \<and> response_interceptor
      \<lparr>localStorage = Some [''token'' \<mapsto> ''abc''], window = Some \<lparr>href = ''/posts''\<rparr>, navigations = []\<rparr>
      (Rejected \<lparr>name = ''AxiosError'', message = ''Request failed with status code 500'',
                 response = Some \<lparr>status = 500, data = []\<rparr>\<rparr>)
     = (\<lparr>localStorage = Some [''token'' \<mapsto> ''abc''], window = Some \<lparr>href = ''/posts''\<rparr>, navigations = []\<rparr>,
        Inl \<lparr>name = ''AxiosError'', message = ''Request failed with status code 500'',
             response = Some \<lparr>status = 500, data = []\<rparr>\<rparr>)"
  using other_outcomes_pass_through
    [of "\<lparr>localStorage = Some [''token'' \<mapsto> ''abc''], window = Some \<lparr>href = ''/posts''\<rparr>, navigations = []\<rparr>"
        "\<lparr>status = 200, data = ''ok''\<rparr>"
        "\<lparr>name = ''AxiosError'', message = ''Network Error'', response = None\<rparr>"]
    other_outcomes_pass_through
    [of "\<lparr>localStorage = Some [''token'' \<mapsto> ''abc''], window = Some \<lparr>href = ''/posts''\<rparr>, navigations = []\<rparr>"
        "\<lparr>status = 200, data = ''ok''\<rparr>"
        "\<lparr>name = ''AxiosError'', message = ''Request failed with status code 500'',
          response = Some \<lparr>status = 500, data = []\<rparr>\<rparr>"
        "\<lparr>status = 500, data = []\<rparr>"]
  by simp

text \<open>
  C10. Where no window exists, a 401 response still removes the \<^verbatim>\<open>token\<close> entry from the
  Token Store and still reaches the caller as a rejection with the same error, and no
  navigation is fired: the removal comes before the test for a window and does not depend
  on it.
\<close>

theorem token_cleared_without_window:
  assumes "window e = None"
    and "response_status error = Some 401" and "localStorage e = Some store"
  shows "localStorage (fst (response_interceptor e (Rejected error))) = Some (removeItem store ''token'')
       \<and> getItem (removeItem store ''token'') ''token'' = None
       \<and> snd (response_interceptor e (Rejected error)) = Inl error
       \<and> navigations (fst (response_interceptor e (Rejected error))) = navigations e
       \<and> window (fst (response_interceptor e (Rejected error))) = None"
  using assms
  by (simp add: response_interceptor_def response_onRejected_401 getItem_removeItem_same)

theorem token_cleared_without_window_witness:
  "window \<lparr>localStorage = Some [''token'' \<mapsto> ''abc''], window = None, navigations = []\<rparr> = None
   \<and> response_status \<lparr>name = ''AxiosError'', message = ''Request failed with status code 401'',
                     response = Some \<lparr>status = 401, data = []\<rparr>\<rparr> = Some 401
   \<and> localStorage \<lparr>localStorage = Some [''token'' \<mapsto> ''abc''], window = None, navigations = []\<rparr>
       = Some [''token'' \<mapsto> ''abc'']
   \<and> localStorage (fst (response_interceptor
         \<lparr>localStorage = Some [''token'' \<mapsto> ''abc''], window = None, navigations = []\<rparr>
         (Rejected \<lparr>name = ''AxiosError'', message = ''Request failed with status code 401'',
                    response = Some \<lparr>status = 401, data = []\<rparr>\<rparr>)))
       = Some (removeItem [''token'' \<mapsto> ''abc''] ''token'')
   \<and> getItem (removeItem [''token'' \<mapsto> ''abc''] ''token'') ''token'' = None
   \<and> snd (response_interceptor
         \<lparr>localStorage = Some [''token'' \<mapsto> ''abc''], window = None, navigations = []\<rparr>
         (Rejected \<lparr>name = ''AxiosError'', message = ''Request failed with status code 401'',
                    response = Some \<lparr>status = 401, data = []\<rparr>\<rparr>))
       = Inl \<lparr>name = ''AxiosError'', message = ''Request failed with status code 401'',
              response = Some \<lparr>status = 401, data = []\<rparr>\<rparr>
   \<and> navigations (fst (response_interceptor
         \<lparr>localStorage = Some [''token'' \<mapsto> ''abc''], window = None, navigations = []\<rparr>
         (Rejected \<lparr>name = ''AxiosError'', message = ''Request failed with status code 401'',
                    response = Some \<lparr>status = 401, data = []\<rparr>\<rparr>))) = []
   \<and> window (fst (response_interceptor
         \<lparr>localStorage = Some [''token'' \<mapsto> ''abc''], window = None, navigations = []\<rparr>
         (Rejected \<lparr>name = ''AxiosError'', message = ''Request failed with status code 401'',
                    response = Some \<lparr>status = 401, data = []\<rparr>\<rparr>))) = None"
  using token_cleared_without_window
    [of "\<lparr>localStorage = Some [''token'' \<mapsto> ''abc''], window = None, navigations = []\<rparr>"
        "\<lparr>name = ''AxiosError'', message = ''Request failed with status code 401'',
          response = Some \<lparr>status = 401, data = []\<rparr>\<rparr>"
        "[''token'' \<mapsto> ''abc'']"]
  by (simp add: response_status_def)

section \<open>Claims about the request interceptor\<close>

text \<open>
  C4, as stated, fails on a stored token that is the empty string: the entry is present in
  the Token Store, \<^verbatim>\<open>if (token)\<close> takes it for absent, and the request leaves without an
  \<^verbatim>\<open>Authorization\<close> header rather than with \<^verbatim>\<open>'Bearer '\<close>.
\<close>

theorem bearer_header_counterexample:
  "getItem [''token'' \<mapsto> []] ''token'' = Some []
   \<and> request_onFulfilled
        \<lparr>localStorage = Some [''token'' \<mapsto> []], window = Some \<lparr>href = ''/dashboard''\<rparr>, navigations = []\<rparr>
        \<lparr>url = ''/user/profile'', http_method = ''get'', headers = Map.empty\<rparr>
      = Inr \<lparr>url = ''/user/profile'', http_method = ''get'', headers = Map.empty\<rparr>"
  by (simp add: request_onFulfilled_def getItem_def truthy_def)

text \<open>
  C4, amended. While the Token Store holds a token that is not the empty string, the
  configuration that goes on to be dispatched carries the header \<^verbatim>\<open>Authorization\<close> with the
  value \<^verbatim>\<open>'Bearer '\<close> followed by exactly the stored token; every other header and the rest
  of the configuration are the caller's.
\<close>

theorem bearer_header_attached:
  assumes "localStorage e = Some store" and "getItem store ''token'' = Some token"
    and "token \<noteq> []"
  shows "\<exists>config'. request_onFulfilled e config = Inr config'
           \<and> headers config' ''Authorization'' = Some (''Bearer '' @ token)
           \<and> (\<forall>h. h \<noteq> ''Authorization'' \<longrightarrow> headers config' h = headers config h)
           \<and> url config' = url config \<and> http_method config' = http_method config"
  using assms by (simp add: request_onFulfilled_def truthy_def)

theorem bearer_header_attached_witness:
  "localStorage \<lparr>localStorage = Some [''token'' \<mapsto> ''abc''], window = Some \<lparr>href = ''/dashboard''\<rparr>,
                 navigations = []\<rparr> = Some [''token'' \<mapsto> ''abc'']
   \<and> getItem [''token'' \<mapsto> ''abc''] ''token'' = Some ''abc''
   \<and> ''abc'' \<noteq> []
   \<and> (\<exists>config'. request_onFulfilled
          \<lparr>localStorage = Some [''token'' \<mapsto> ''abc''], window = Some \<lparr>href = ''/dashboard''\<rparr>,
           navigations = []\<rparr>
          \<lparr>url = ''/user/profile'', http_method = ''get'', headers = [''Accept'' \<mapsto> ''application/json'']\<rparr>
        = Inr config'
        \<and> headers config' ''Authorization'' = Some ''Bearer abc''
        \<and> headers config' ''Accept'' = Some ''application/json''
        \<and> url config' = ''/user/profile'' \<and> http_method config' = ''get'')"
  using bearer_header_attached
    [of "\<lparr>localStorage = Some [''token'' \<mapsto> ''abc''], window = Some \<lparr>href = ''/dashboard''\<rparr>,
          navigations = []\<rparr>"
        "[''token'' \<mapsto> ''abc'']" "''abc''"
        "\<lparr>url = ''/user/profile'', http_method = ''get'', headers = [''Accept'' \<mapsto> ''application/json'']\<rparr>"]
  by (auto simp add: getItem_def)

text \<open>
  C5. While the Token Store holds no \<^verbatim>\<open>token\<close> entry, the request interceptor hands on the
  caller's configuration as it is: it attaches no \<^verbatim>\<open>Authorization\<close> header and does not stop
  the request.
\<close>

theorem no_header_without_token:
  assumes "localStorage e = Some store" and "getItem store ''token'' = None"
  shows "request_onFulfilled e config = Inr config"
  using assms by (simp add: request_onFulfilled_def)

theorem no_header_without_token_witness:
  "localStorage \<lparr>localStorage = Some Map.empty, window = Some \<lparr>href = ''/''\<rparr>, navigations = []\<rparr>
     = Some Map.empty
   \<and> getItem Map.empty ''token'' = None
   \<and> request_onFulfilled
        \<lparr>localStorage = Some Map.empty, window = Some \<lparr>href = ''/''\<rparr>, navigations = []\<rparr>
        \<lparr>url = ''/posts'', http_method = ''get'', headers = Map.empty\<rparr>
      = Inr \<lparr>url = ''/posts'', http_method = ''get'', headers = Map.empty\<rparr>
   \<and> headers \<lparr>url = ''/posts'', http_method = ''get'', headers = Map.empty\<rparr> ''Authorization'' = None"
  using no_header_without_token
    [of "\<lparr>localStorage = Some Map.empty, window = Some \<lparr>href = ''/''\<rparr>, navigations = []\<rparr>"
        "Map.empty"
        "\<lparr>url = ''/posts'', http_method = ''get'', headers = Map.empty\<rparr>"]
  by (simp add: getItem_def)

section \<open>Claims about the Route Guard\<close>

text \<open>
  C7. A request whose path starts with \<^verbatim>\<open>/dashboard\<close> and that has no cookie named
  \<^verbatim>\<open>token\<close> is answered with a redirect to \<^verbatim>\<open>/sign_in\<close> on the request's own origin; a
  request whose path does not start with \<^verbatim>\<open>/dashboard\<close> proceeds, whatever its cookies.
\<close>

theorem route_guard_redirects_or_proceeds:
  "(startsWith (pathname (nextUrl request)) ''/dashboard'' \<and> cookies request ''token'' = None \<longrightarrow>
      middleware request
        = Redirect \<lparr>origin = origin (nextUrl request), pathname = ''/sign_in'', search = []\<rparr>)
   \<and> (\<not> startsWith (pathname (nextUrl request)) ''/dashboard'' \<longrightarrow> middleware request = Next)"
  by (simp add: middleware_def new_URL_def)

theorem route_guard_redirects_or_proceeds_witness:
  "startsWith (pathname (nextUrl
      \<lparr>nextUrl = \<lparr>origin = ''http://localhost:3000'', pathname = ''/dashboard/settings'', search = ''?tab=1''\<rparr>,
       cookies = [''theme'' \<mapsto> ''dark'']\<rparr>)) ''/dashboard''
   \<and> cookies
      \<lparr>nextUrl = \<lparr>origin = ''http://localhost:3000'', pathname = ''/dashboard/settings'', search = ''?tab=1''\<rparr>,
       cookies = [''theme'' \<mapsto> ''dark'']\<rparr> ''token'' = None
   \<and> middleware
      \<lparr>nextUrl = \<lparr>origin = ''http://localhost:3000'', pathname = ''/dashboard/settings'', search = ''?tab=1''\<rparr>,
       cookies = [''theme'' \<mapsto> ''dark'']\<rparr>
     = Redirect \<lparr>origin = ''http://localhost:3000'', pathname = ''/sign_in'', search = []\<rparr>
   \<and> \<not> startsWith (pathname (nextUrl
      \<lparr>nextUrl = \<lparr>origin = ''http://localhost:3000'', pathname = ''/posts'', search = []\<rparr>,
       cookies = Map.empty\<rparr>)) ''/dashboard''
   \<and> middleware
      \<lparr>nextUrl = \<lparr>origin = ''http://localhost:3000'', pathname = ''/posts'', search = []\<rparr>,
       cookies = Map.empty\<rparr> = Next"
  using route_guard_redirects_or_proceeds
    [of "\<lparr>nextUrl = \<lparr>origin = ''http://localhost:3000'', pathname = ''/dashboard/settings'', search = ''?tab=1''\<rparr>,
          cookies = [''theme'' \<mapsto> ''dark'']\<rparr>"]
    route_guard_redirects_or_proceeds
    [of "\<lparr>nextUrl = \<lparr>origin = ''http://localhost:3000'', pathname = ''/posts'', search = []\<rparr>,
          cookies = Map.empty\<rparr>"]
  by (simp add: startsWith_def)

text \<open>
  C8, as stated, fails on a cookie whose value is the empty string: the guard tests
  \<^verbatim>\<open>!token\<close>, which holds of the empty string as it does of a missing cookie, and redirects.
\<close>

theorem any_cookie_proceeds_counterexample:
  "startsWith (pathname (nextUrl
      \<lparr>nextUrl = \<lparr>origin = ''http://localhost:3000'', pathname = ''/dashboard'', search = []\<rparr>,
       cookies = [''token'' \<mapsto> []]\<rparr>)) ''/dashboard''
   \<and> cookies
      \<lparr>nextUrl = \<lparr>origin = ''http://localhost:3000'', pathname = ''/dashboard'', search = []\<rparr>,
       cookies = [''token'' \<mapsto> []]\<rparr> ''token'' = Some []
   \<and> middleware
      \<lparr>nextUrl = \<lparr>origin = ''http://localhost:3000'', pathname = ''/dashboard'', search = []\<rparr>,
       cookies = [''token'' \<mapsto> []]\<rparr>
     = Redirect \<lparr>origin = ''http://localhost:3000'', pathname = ''/sign_in'', search = []\<rparr>"
  by (simp add: middleware_def new_URL_def startsWith_def truthy_def)

text \<open>
  C8, amended. A request to a path that starts with \<^verbatim>\<open>/dashboard\<close> and that carries a
  cookie named \<^verbatim>\<open>token\<close> with any value but the empty string proceeds; the value is not
  looked at beyond that.
\<close>

theorem nonempty_cookie_proceeds:
  assumes "startsWith (pathname (nextUrl request)) ''/dashboard''"
    and "cookies request ''token'' = Some v" and "v \<noteq> []"
  shows "middleware request = Next"
  using assms by (simp add: middleware_def truthy_def)

theorem nonempty_cookie_proceeds_witness:
  "startsWith (pathname (nextUrl
      \<lparr>nextUrl = \<lparr>origin = ''http://localhost:3000'', pathname = ''/dashboard'', search = []\<rparr>,
       cookies = [''token'' \<mapsto> ''not-a-real-token'']\<rparr>)) ''/dashboard''
   \<and> cookies
      \<lparr>nextUrl = \<lparr>origin = ''http://localhost:3000'', pathname = ''/dashboard'', search = []\<rparr>,
       cookies = [''token'' \<mapsto> ''not-a-real-token'']\<rparr> ''token'' = Some ''not-a-real-token''
   \<and> ''not-a-real-token'' \<noteq> []
   \<and> middleware
      \<lparr>nextUrl = \<lparr>origin = ''http://localhost:3000'', pathname = ''/dashboard'', search = []\<rparr>,
       cookies = [''token'' \<mapsto> ''not-a-real-token'']\<rparr> = Next"
  using nonempty_cookie_proceeds
    [of "\<lparr>nextUrl = \<lparr>origin = ''http://localhost:3000'', pathname = ''/dashboard'', search = []\<rparr>,
          cookies = [''token'' \<mapsto> ''not-a-real-token'']\<rparr>"
        "''not-a-real-token''"]
  by (simp add: startsWith_def)

section \<open>The empty string as a credential\<close>

text \<open>
  C9. An empty string counts as no credential on both sides. With the empty string stored
  as the token, the request interceptor hands on the caller's configuration as it is, with no
  \<^verbatim>\<open>Authorization\<close> header attached. With a \<^verbatim>\<open>token\<close> cookie whose value is the empty string, a
  request to a path that starts with \<^verbatim>\<open>/dashboard\<close> is redirected to \<^verbatim>\<open>/sign_in\<close>, which
  is the answer the same request gets without the cookie.
\<close>

theorem empty_credential_is_absent:
  "(localStorage e = Some store \<and> getItem store ''token'' = Some [] \<longrightarrow>
      request_onFulfilled e config = Inr config)
   \<and> (startsWith (pathname (nextUrl request)) ''/dashboard'' \<and> cookies request ''token'' = Some [] \<longrightarrow>
        middleware request
          = Redirect \<lparr>origin = origin (nextUrl request), pathname = ''/sign_in'', search = []\<rparr>
        \<and> middleware request = middleware (request\<lparr>cookies := (cookies request)(''token'' := None)\<rparr>))"
  by (simp add: request_onFulfilled_def middleware_def new_URL_def truthy_def)

theorem empty_credential_is_absent_witness:
  "localStorage \<lparr>localStorage = Some [''token'' \<mapsto> []], window = Some \<lparr>href = ''/''\<rparr>, navigations = []\<rparr>
     = Some [''token'' \<mapsto> []]
   \<and> getItem [''token'' \<mapsto> []] ''token'' = Some []
   \<and> request_onFulfilled
        \<lparr>localStorage = Some [''token'' \<mapsto> []], window = Some \<lparr>href = ''/''\<rparr>, navigations = []\<rparr>
        \<lparr>url = ''/user/profile'', http_method = ''get'', headers = Map.empty\<rparr>
      = Inr \<lparr>url = ''/user/profile'', http_method = ''get'', headers = Map.empty\<rparr>
   \<and> startsWith (pathname (nextUrl
        \<lparr>nextUrl = \<lparr>origin = ''http://localhost:3000'', pathname = ''/dashboard/home'', search = []\<rparr>,
         cookies = [''token'' \<mapsto> []]\<rparr>)) ''/dashboard''
   \<and> cookies
        \<lparr>nextUrl = \<lparr>origin = ''http://localhost:3000'', pathname = ''/dashboard/home'', search = []\<rparr>,
         cookies = [''token'' \<mapsto> []]\<rparr> ''token'' = Some []
   \<and> middleware
        \<lparr>nextUrl = \<lparr>origin = ''http://localhost:3000'', pathname = ''/dashboard/home'', search = []\<rparr>,
         cookies = [''token'' \<mapsto> []]\<rparr>
      = Redirect \<lparr>origin = ''http://localhost:3000'', pathname = ''/sign_in'', search = []\<rparr>"
  using empty_credential_is_absent
    [of "\<lparr>localStorage = Some [''token'' \<mapsto> []], window = Some \<lparr>href = ''/''\<rparr>, navigations = []\<rparr>"
        "[''token'' \<mapsto> []]"
        "\<lparr>url = ''/user/profile'', http_method = ''get'', headers = Map.empty\<rparr>"
        "\<lparr>nextUrl = \<lparr>origin = ''http://localhost:3000'', pathname = ''/dashboard/home'', search = []\<rparr>,
          cookies = [''token'' \<mapsto> []]\<rparr>"]
  by (simp add: getItem_def startsWith_def)

end
